theory Spec2Isabelle
  imports Main "HOL-Library.Word"
begin

unbundle bit_operations_syntax

section \<open>Data model of \<^verbatim>\<open>examples/tutorial_server_enumerationtype.c\<close>\<close>

text \<open>
  The example is a client of the open62541 library. The library itself is not part of the
  sources: its data types are modelled with the fields the example touches, its constants
  carry the values of the OPC UA standard, and the status that a fallible library call
  returns is an argument of the model, so that every branch the example takes on such a
  status is a branch here.
\<close>

type_synonym UA_StatusCode = "32 word"
type_synonym UA_UInt16 = "16 word"
type_synonym UA_UInt32 = "32 word"
type_synonym UA_Int32 = "32 word"
type_synonym UA_Int64 = "64 word"
type_synonym UA_DateTime = "64 word"
type_synonym UA_Byte = "8 word"

text \<open>
  The signed types are words too: \<open>sint\<close> reads their two's-complement value, and the
  signed comparisons of the source are comparisons of \<open>sint\<close>.
\<close>

text \<open>A \<^verbatim>\<open>void *\<close>: \<open>None\<close> is the null pointer.\<close>
type_synonym void_ptr = "nat option"

definition UA_STATUSCODE_GOOD :: UA_StatusCode where
  "UA_STATUSCODE_GOOD = 0x00000000"

definition UA_STATUSCODE_BADOUTOFMEMORY :: UA_StatusCode where
  "UA_STATUSCODE_BADOUTOFMEMORY = 0x80030000"

definition UA_STATUSCODE_BADNOTFOUND :: UA_StatusCode where
  "UA_STATUSCODE_BADNOTFOUND = 0x803E0000"

text \<open>The severity test of the library: the two top bits of a status are \<open>10\<close> or \<open>11\<close>.\<close>
definition UA_StatusCode_isBad :: "UA_StatusCode \<Rightarrow> bool" where
  "UA_StatusCode_isBad code = (2 \<le> drop_bit 30 code)"

definition ENUMVALUES_LEN :: nat where
  "ENUMVALUES_LEN = 5"

datatype UA_NodeId = UA_NODEID_NUMERIC (namespaceIndex: UA_UInt16) (numeric: UA_UInt32)

text \<open>Numeric identifiers of namespace 0 that the example names.\<close>
definition UA_NS0ID_ENUMERATION :: UA_UInt32 where "UA_NS0ID_ENUMERATION = 29"
definition UA_NS0ID_ORGANIZES :: UA_UInt32 where "UA_NS0ID_ORGANIZES = 35"
definition UA_NS0ID_HASSUBTYPE :: UA_UInt32 where "UA_NS0ID_HASSUBTYPE = 45"
definition UA_NS0ID_HASPROPERTY :: UA_UInt32 where "UA_NS0ID_HASPROPERTY = 46"
definition UA_NS0ID_FOLDERTYPE :: UA_UInt32 where "UA_NS0ID_FOLDERTYPE = 61"
definition UA_NS0ID_BASEDATAVARIABLETYPE :: UA_UInt32 where "UA_NS0ID_BASEDATAVARIABLETYPE = 63"
definition UA_NS0ID_PROPERTYTYPE :: UA_UInt32 where "UA_NS0ID_PROPERTYTYPE = 68"
definition UA_NS0ID_OBJECTSFOLDER :: UA_UInt32 where "UA_NS0ID_OBJECTSFOLDER = 85"

definition UA_ACCESSLEVELMASK_READ :: UA_Byte where "UA_ACCESSLEVELMASK_READ = 0x01"
definition UA_ACCESSLEVELMASK_WRITE :: UA_Byte where "UA_ACCESSLEVELMASK_WRITE = 0x02"

definition UA_VALUERANK_SCALAR :: UA_Int32 where "UA_VALUERANK_SCALAR = - 1"
definition UA_VALUERANK_ONE_DIMENSION :: UA_Int32 where "UA_VALUERANK_ONE_DIMENSION = 1"

record UA_LocalizedText =
  lt_locale :: string
  lt_text :: string

definition UA_LOCALIZEDTEXT :: "string \<Rightarrow> string \<Rightarrow> UA_LocalizedText" where
  "UA_LOCALIZEDTEXT loc txt = \<lparr>lt_locale = loc, lt_text = txt\<rparr>"

text \<open>The allocating variant copies both strings; the copy holds the same characters.\<close>
definition UA_LOCALIZEDTEXT_ALLOC :: "string \<Rightarrow> string \<Rightarrow> UA_LocalizedText" where
  "UA_LOCALIZEDTEXT_ALLOC loc txt = \<lparr>lt_locale = loc, lt_text = txt\<rparr>"

datatype UA_QualifiedName = UA_QUALIFIEDNAME (qn_namespaceIndex: UA_UInt16) (qn_name: string)

record UA_EnumValueType =
  ev_value :: UA_Int64
  ev_displayName :: UA_LocalizedText
  ev_description :: UA_LocalizedText

text \<open>
  A type descriptor of the library. \<open>typeName\<close> is a \<^verbatim>\<open>const char *\<close>
  (\<open>None\<close> in a zeroed descriptor).
\<close>
record UA_DataType =
  typeName :: "string option"
  typeId :: UA_NodeId
  binaryEncodingId :: UA_NodeId
  memSize :: nat
  typeKind :: nat
  pointerFree :: bool
  overlayable :: bool
  membersSize :: nat

text \<open>The entries of the library's table \<^verbatim>\<open>UA_TYPES\<close> that the example points to.\<close>
datatype UA_TYPES_index = UA_TYPES_INT32 | UA_TYPES_LOCALIZEDTEXT | UA_TYPES_ENUMVALUETYPE

fun UA_TYPES_typeId :: "UA_TYPES_index \<Rightarrow> UA_NodeId" where
  "UA_TYPES_typeId UA_TYPES_INT32 = UA_NODEID_NUMERIC 0 6"
| "UA_TYPES_typeId UA_TYPES_LOCALIZEDTEXT = UA_NODEID_NUMERIC 0 21"
| "UA_TYPES_typeId UA_TYPES_ENUMVALUETYPE = UA_NODEID_NUMERIC 0 7594"

text \<open>
  The payload a variant points to. A C array of automatic storage starts uninitialised:
  an entry is \<open>None\<close> until the program assigns it.
\<close>
datatype variant_data =
    NoData
  | Int32Scalar UA_Int32
  | EnumValueArray "UA_EnumValueType option list"
  | LocalizedTextArray "UA_LocalizedText option list"

record UA_Variant =
  var_type :: "UA_TYPES_index option"
  arrayLength :: nat
  var_data :: variant_data

definition UA_Variant_init :: UA_Variant where
  "UA_Variant_init = \<lparr>var_type = None, arrayLength = 0, var_data = NoData\<rparr>"

text \<open>The library's test for a scalar: no array length and a payload.\<close>
definition UA_Variant_isScalar :: "UA_Variant \<Rightarrow> bool" where
  "UA_Variant_isScalar v = (arrayLength v = 0 \<and> var_data v \<noteq> NoData)"

text \<open>
  \<^verbatim>\<open>UA_Variant_setScalarCopy\<close> allocates a copy of the scalar. Its status \<open>rc\<close> is
  the library's: with a good status the variant holds the copy, otherwise the variant is
  left as it was.
\<close>
definition UA_Variant_setScalarCopy ::
  "UA_StatusCode \<Rightarrow> UA_Variant \<Rightarrow> UA_Int32 \<Rightarrow> UA_TYPES_index \<Rightarrow> UA_StatusCode \<times> UA_Variant" where
  "UA_Variant_setScalarCopy rc v p ty =
     (if rc = UA_STATUSCODE_GOOD
      then (UA_STATUSCODE_GOOD, \<lparr>var_type = Some ty, arrayLength = 0, var_data = Int32Scalar p\<rparr>)
      else (rc, v))"

text \<open>\<^verbatim>\<open>UA_Variant_setArray\<close> stores the pointer, the length and the type; it cannot fail.\<close>
definition UA_Variant_setArray ::
  "UA_Variant \<Rightarrow> variant_data \<Rightarrow> nat \<Rightarrow> UA_TYPES_index \<Rightarrow> UA_Variant" where
  "UA_Variant_setArray v array arraySize ty =
     \<lparr>var_type = Some ty, arrayLength = arraySize, var_data = array\<rparr>"

record UA_DataValue =
  dv_value :: UA_Variant
  hasValue :: bool
  sourceTimestamp :: UA_DateTime

definition UA_DataValue_init :: UA_DataValue where
  "UA_DataValue_init = \<lparr>dv_value = UA_Variant_init, hasValue = False, sourceTimestamp = 0\<rparr>"

type_synonym UA_NumericRange = "(UA_UInt32 \<times> UA_UInt32) list"

record UA_VariableAttributes =
  va_displayName :: UA_LocalizedText
  va_value :: UA_Variant
  va_dataType :: UA_NodeId
  va_valueRank :: UA_Int32
  va_arrayDimensionsSize :: nat
  va_arrayDimensions :: "UA_UInt32 list"
  va_accessLevel :: UA_Byte
  va_userAccessLevel :: UA_Byte

record UA_ObjectAttributes =
  oa_displayName :: UA_LocalizedText
  oa_eventNotifier :: UA_Byte

record UA_DataTypeAttributes =
  da_displayName :: UA_LocalizedText
  da_isAbstract :: bool

text \<open>The two callbacks of the example, as the function pointers a data source holds.\<close>
datatype read_callback = Ptr_readValue
datatype write_callback = Ptr_writeValue

record UA_DataSource =
  ds_read :: read_callback
  ds_write :: write_callback

datatype node_body =
    DataTypeNode UA_DataTypeAttributes
  | ObjectNode UA_NodeId UA_ObjectAttributes
  | VariableNode UA_NodeId UA_VariableAttributes
  | DataSourceVariableNode UA_NodeId UA_VariableAttributes UA_DataSource

record node =
  nodeId :: UA_NodeId
  parentNodeId :: UA_NodeId
  referenceTypeId :: UA_NodeId
  browseName :: UA_QualifiedName
  body :: node_body

text \<open>\<^verbatim>\<open>config->customDataTypes\<close> points to a type array or is null.\<close>
datatype UA_DataTypeArray_ptr = Addr_DataTypeArray | Addr_other nat

text \<open>
  The server, as far as the example sees it: the configuration field it sets and the nodes
  it has added.
\<close>
record UA_Server =
  customDataTypes :: "UA_DataTypeArray_ptr option"
  nodes :: "node list"

text \<open>What the example takes from the library without defining it.\<close>
record ua_library =
  UA_TYPES_ENUMERATION :: UA_DataType
  UA_VariableAttributes_default :: UA_VariableAttributes
  UA_ObjectAttributes_default :: UA_ObjectAttributes
  UA_DataTypeAttributes_default :: UA_DataTypeAttributes

text \<open>
  The static variables of the file, the static local \<^verbatim>\<open>value\<close> of
  \<^verbatim>\<open>readValue\<close>, and the server object.
\<close>
record program_state =
  FreeNodeId :: UA_UInt32
  DataTypes :: "UA_DataType list"
  UsedDataTypes :: nat
  readValue_value :: UA_Int32
  server :: UA_Server

definition zero_DataType :: UA_DataType where
  "zero_DataType = \<lparr>typeName = None, typeId = UA_NODEID_NUMERIC 0 0,
     binaryEncodingId = UA_NODEID_NUMERIC 0 0, memSize = 0, typeKind = 0,
     pointerFree = False, overlayable = False, membersSize = 0\<rparr>"

text \<open>The state at the start of \<^verbatim>\<open>main\<close>, once the server has its default configuration.\<close>
definition initial_state :: program_state where
  "initial_state = \<lparr>FreeNodeId = 0x80000000, DataTypes = [zero_DataType, zero_DataType],
     UsedDataTypes = 0, readValue_value = 0,
     server = \<lparr>customDataTypes = None, nodes = []\<rparr>\<rparr>"

text \<open>
  What stops the program or is undefined in C: a failed \<^verbatim>\<open>assert\<close>, an array index
  out of bounds, a signed overflow, a write past the end of a character buffer.
\<close>
datatype fault = AssertionFailed | IndexOutOfBounds | SignedOverflow | BufferOverflow

section \<open>The data source callbacks\<close>

text \<open>
  \<^verbatim>\<open>readValue\<close>: \<open>dataValue\<close> is the output pointer, \<open>rc\<close> the status of the
  library's scalar copy and \<open>now\<close> the clock. The other arguments are unused, as in
  the source.
\<close>
definition readValue ::
  "program_state \<Rightarrow> UA_NodeId option \<Rightarrow> void_ptr \<Rightarrow> UA_NodeId option \<Rightarrow> void_ptr \<Rightarrow> bool \<Rightarrow>
   UA_NumericRange option \<Rightarrow> UA_DataValue option \<Rightarrow> UA_StatusCode \<Rightarrow> UA_DateTime \<Rightarrow>
   fault + (UA_StatusCode \<times> program_state \<times> UA_DataValue option)" where
  "readValue s sessionId sessionContext nodeId' nodeContext sourceTimeStamp' range' dataValue rc now =
     (case dataValue of
        Some dv \<Rightarrow>
          if readValue_value s = 0x7FFFFFFF then Inl SignedOverflow
          else
            let v1 = readValue_value s + 1;
                v = (if int ENUMVALUES_LEN \<le> sint v1 then 0 else v1);
                s' = s\<lparr>readValue_value := v\<rparr>;
                (retVal, var) = UA_Variant_setScalarCopy rc (dv_value dv) v UA_TYPES_INT32;
                dv1 = dv\<lparr>dv_value := var\<rparr>
            in if retVal = UA_STATUSCODE_GOOD
               then Inr (retVal, s', Some (dv1\<lparr>hasValue := True, sourceTimestamp := now\<rparr>))
               else Inr (retVal, s', Some dv1)
      | None \<Rightarrow> Inr (UA_STATUSCODE_BADNOTFOUND, s, None))"

text \<open>\<^verbatim>\<open>writeValue\<close>: every argument is unused.\<close>
definition writeValue ::
  "program_state \<Rightarrow> UA_NodeId option \<Rightarrow> void_ptr \<Rightarrow> UA_NodeId option \<Rightarrow> void_ptr \<Rightarrow>
   UA_NumericRange option \<Rightarrow> UA_DataValue option \<Rightarrow> UA_StatusCode \<times> program_state" where
  "writeValue s sessionId sessionContext nodeId' nodeContext range' dataValue =
     (UA_STATUSCODE_BADNOTFOUND, s)"

text \<open>
  A run of consecutive reads of the bound node, each with its own output and clock value
  and a scalar copy that succeeds; the run returns the statuses and the outputs in order.
\<close>
fun read_sequence ::
  "program_state \<Rightarrow> (UA_DataValue \<times> UA_DateTime) list \<Rightarrow>
   fault + ((UA_StatusCode \<times> UA_DataValue option) list \<times> program_state)" where
  "read_sequence s [] = Inr ([], s)"
| "read_sequence s ((dv, now) # rest) =
     (case readValue s None None None None False None (Some dv) UA_STATUSCODE_GOOD now of
        Inl e \<Rightarrow> Inl e
      | Inr (retVal, s', out) \<Rightarrow>
          (case read_sequence s' rest of
             Inl e \<Rightarrow> Inl e
           | Inr (outs, s'') \<Rightarrow> Inr ((retVal, out) # outs, s'')))"

text \<open>The Int32 scalar an output holds, if it holds one.\<close>
fun read_result :: "UA_DataValue option \<Rightarrow> UA_Int32 option" where
  "read_result None = None"
| "read_result (Some dv) =
     (if hasValue dv \<and> var_type (dv_value dv) = Some UA_TYPES_INT32 \<and> arrayLength (dv_value dv) = 0
      then (case var_data (dv_value dv) of Int32Scalar x \<Rightarrow> Some x | _ \<Rightarrow> None)
      else None)"


section \<open>The library's node services\<close>

text \<open>
  The add-node services of the library return a status, \<open>rc\<close> here. With a good status
  the server holds the node under the requested identifier; otherwise it is unchanged.
\<close>
definition UA_Server_addNode :: "UA_StatusCode \<Rightarrow> UA_Server \<Rightarrow> node \<Rightarrow> UA_StatusCode \<times> UA_Server" where
  "UA_Server_addNode rc srv n =
     (if rc = UA_STATUSCODE_GOOD then (UA_STATUSCODE_GOOD, srv\<lparr>nodes := nodes srv @ [n]\<rparr>)
      else (rc, srv))"

definition UA_Server_addDataTypeNode ::
  "UA_StatusCode \<Rightarrow> UA_Server \<Rightarrow> UA_NodeId \<Rightarrow> UA_NodeId \<Rightarrow> UA_NodeId \<Rightarrow> UA_QualifiedName \<Rightarrow>
   UA_DataTypeAttributes \<Rightarrow> UA_StatusCode \<times> UA_Server" where
  "UA_Server_addDataTypeNode rc srv requestedNewNodeId parent ref name attr =
     UA_Server_addNode rc srv \<lparr>nodeId = requestedNewNodeId, parentNodeId = parent,
       referenceTypeId = ref, browseName = name, body = DataTypeNode attr\<rparr>"

definition UA_Server_addObjectNode ::
  "UA_StatusCode \<Rightarrow> UA_Server \<Rightarrow> UA_NodeId \<Rightarrow> UA_NodeId \<Rightarrow> UA_NodeId \<Rightarrow> UA_QualifiedName \<Rightarrow>
   UA_NodeId \<Rightarrow> UA_ObjectAttributes \<Rightarrow> UA_StatusCode \<times> UA_Server" where
  "UA_Server_addObjectNode rc srv requestedNewNodeId parent ref name typeDefinition attr =
     UA_Server_addNode rc srv \<lparr>nodeId = requestedNewNodeId, parentNodeId = parent,
       referenceTypeId = ref, browseName = name, body = ObjectNode typeDefinition attr\<rparr>"

definition UA_Server_addVariableNode ::
  "UA_StatusCode \<Rightarrow> UA_Server \<Rightarrow> UA_NodeId \<Rightarrow> UA_NodeId \<Rightarrow> UA_NodeId \<Rightarrow> UA_QualifiedName \<Rightarrow>
   UA_NodeId \<Rightarrow> UA_VariableAttributes \<Rightarrow> UA_StatusCode \<times> UA_Server" where
  "UA_Server_addVariableNode rc srv requestedNewNodeId parent ref name typeDefinition attr =
     UA_Server_addNode rc srv \<lparr>nodeId = requestedNewNodeId, parentNodeId = parent,
       referenceTypeId = ref, browseName = name, body = VariableNode typeDefinition attr\<rparr>"

definition UA_Server_addDataSourceVariableNode ::
  "UA_StatusCode \<Rightarrow> UA_Server \<Rightarrow> UA_NodeId \<Rightarrow> UA_NodeId \<Rightarrow> UA_NodeId \<Rightarrow> UA_QualifiedName \<Rightarrow>
   UA_NodeId \<Rightarrow> UA_VariableAttributes \<Rightarrow> UA_DataSource \<Rightarrow> UA_StatusCode \<times> UA_Server" where
  "UA_Server_addDataSourceVariableNode rc srv requestedNewNodeId parent ref name typeDefinition attr dataSource =
     UA_Server_addNode rc srv \<lparr>nodeId = requestedNewNodeId, parentNodeId = parent,
       referenceTypeId = ref, browseName = name,
       body = DataSourceVariableNode typeDefinition attr dataSource\<rparr>"

section \<open>Character buffers\<close>

definition NUL :: char where
  "NUL = CHR 0x00"

text \<open>The decimal digits of a number, as \<^verbatim>\<open>%d\<close> prints a value that is not negative.\<close>
fun decimal :: "nat \<Rightarrow> string" where
  "decimal n = (if n < 10 then [''0123456789'' ! n]
                else decimal (n div 10) @ [''0123456789'' ! (n mod 10)])"

declare decimal.simps [simp del]

text \<open>
  \<^verbatim>\<open>snprintf(buf + off, size, "%d", n)\<close>: at most \<open>size - 1\<close> characters and a
  terminating NUL are written from offset \<open>off\<close>. Writing past the end of \<open>buf\<close> is
  a fault.
\<close>
definition snprintf_d :: "string \<Rightarrow> nat \<Rightarrow> nat \<Rightarrow> nat \<Rightarrow> fault + string" where
  "snprintf_d buf off size' n =
     (if size' = 0 then Inr buf
      else let out = take (size' - 1) (decimal n) @ [NUL]
           in if off + length out \<le> length buf
              then Inr (take off buf @ out @ drop (off + length out) buf)
              else Inl BufferOverflow)"

text \<open>The C string a buffer holds: the characters before the first NUL.\<close>
definition c_string :: "string \<Rightarrow> string" where
  "c_string buf = takeWhile (\<lambda>c. c \<noteq> NUL) buf"

section \<open>Creating types and nodes\<close>

text \<open>
  Each function below gets the status of its library call as last argument \<open>rc\<close>; the
  \<^verbatim>\<open>assert\<close> on that status is the fault \<open>AssertionFailed\<close>. The namespace index
  is passed as \<^verbatim>\<open>UA_Int16\<close> by three of the functions and converted back to
  \<^verbatim>\<open>UA_UInt16\<close> for the node identifier: the same sixteen bits, one word here.
\<close>

definition addEnumerationDataType ::
  "ua_library \<Rightarrow> program_state \<Rightarrow> UA_UInt16 \<Rightarrow> string \<Rightarrow> UA_StatusCode \<Rightarrow>
   fault + (UA_NodeId \<times> program_state)" where
  "addEnumerationDataType L s nsIndex name rc =
     (let customEnumDataType = (UA_TYPES_ENUMERATION L)\<lparr>typeName := Some name\<rparr>;
          s1 = s\<lparr>FreeNodeId := FreeNodeId s + 1\<rparr>;
          enumerationDataTypeNodeId = UA_NODEID_NUMERIC nsIndex (FreeNodeId s1);
          customEnumDataType = customEnumDataType\<lparr>typeId := enumerationDataTypeNodeId,
            binaryEncodingId := enumerationDataTypeNodeId\<rparr>;
          s2 = (if customDataTypes (server s1) = None
                then s1\<lparr>server := (server s1)\<lparr>customDataTypes := Some Addr_DataTypeArray\<rparr>\<rparr>
                else s1)
      in if UsedDataTypes s2 < length (DataTypes s2)
         then
           let s3 = s2\<lparr>DataTypes := (DataTypes s2)[UsedDataTypes s2 := customEnumDataType],
                      UsedDataTypes := UsedDataTypes s2 + 1\<rparr>;
               dAttr = (UA_DataTypeAttributes_default L)\<lparr>da_displayName := UA_LOCALIZEDTEXT '''' name\<rparr>;
               (retVal, srv) = UA_Server_addDataTypeNode rc (server s3) enumerationDataTypeNodeId
                 (UA_NODEID_NUMERIC 0 UA_NS0ID_ENUMERATION) (UA_NODEID_NUMERIC 0 UA_NS0ID_HASSUBTYPE)
                 (UA_QUALIFIEDNAME nsIndex name) dAttr
           in if retVal = UA_STATUSCODE_GOOD
              then Inr (enumerationDataTypeNodeId, s3\<lparr>server := srv\<rparr>)
              else Inl AssertionFailed
         else Inl IndexOutOfBounds)"

text \<open>The loop of \<^verbatim>\<open>addEnumValues\<close> over \<open>i\<close>, filling \<open>enumValues\<close>.\<close>
function addEnumValues_loop ::
  "nat \<Rightarrow> UA_EnumValueType option list \<Rightarrow> fault + UA_EnumValueType option list" where
  "addEnumValues_loop i enumValues =
     (if i < ENUMVALUES_LEN
      then
        (case snprintf_d (''EnumValue   '' @ [NUL]) 10 (length (''EnumValue   '' @ [NUL])) i of
           Inl e \<Rightarrow> Inl e
         | Inr name \<Rightarrow>
            (case snprintf_d (''Description   '' @ [NUL]) 12 (length (''Description   '' @ [NUL])) i of
               Inl e \<Rightarrow> Inl e
             | Inr description \<Rightarrow>
                 if i < length enumValues
                 then addEnumValues_loop (Suc i)
                        (enumValues[i := Some \<lparr>ev_value = of_nat i,
                           ev_displayName = UA_LOCALIZEDTEXT_ALLOC '''' (c_string name),
                           ev_description = UA_LOCALIZEDTEXT_ALLOC '''' (c_string description)\<rparr>])
                 else Inl IndexOutOfBounds))
      else Inr enumValues)"
  by pat_completeness auto
termination
  by (relation "measure (\<lambda>(i, enumValues). ENUMVALUES_LEN - i)") auto

declare addEnumValues_loop.simps [simp del]

text \<open>
  The first part of \<^verbatim>\<open>addEnumValues\<close>, up to \<^verbatim>\<open>UA_Variant_setArray\<close>: the
  attributes it hands to the server, or the fault of its loop.
\<close>
definition addEnumValues_attributes :: "ua_library \<Rightarrow> fault + UA_VariableAttributes" where
  "addEnumValues_attributes L =
     (let vAttr = (UA_VariableAttributes_default L)\<lparr>
            va_userAccessLevel := UA_ACCESSLEVELMASK_READ,
            va_accessLevel := UA_ACCESSLEVELMASK_READ,
            va_valueRank := UA_VALUERANK_ONE_DIMENSION,
            va_arrayDimensionsSize := 1,
            va_arrayDimensions := [of_nat ENUMVALUES_LEN],
            va_displayName := UA_LOCALIZEDTEXT '''' ''EnumValues'',
            va_dataType := UA_TYPES_typeId UA_TYPES_ENUMVALUETYPE\<rparr>
      in case addEnumValues_loop 0 (replicate ENUMVALUES_LEN None) of
           Inl e \<Rightarrow> Inl e
         | Inr enumValues \<Rightarrow>
             Inr (vAttr\<lparr>va_value :=
                   UA_Variant_setArray (va_value vAttr) (EnumValueArray enumValues) 5 UA_TYPES_ENUMVALUETYPE\<rparr>))"

definition addEnumValues ::
  "ua_library \<Rightarrow> program_state \<Rightarrow> UA_UInt16 \<Rightarrow> UA_NodeId \<Rightarrow> UA_StatusCode \<Rightarrow> fault + program_state" where
  "addEnumValues L s nsIndex parentNodeId' rc =
     (case addEnumValues_attributes L of
        Inl e \<Rightarrow> Inl e
      | Inr vAttr \<Rightarrow>
          let s1 = s\<lparr>FreeNodeId := FreeNodeId s + 1\<rparr>;
              (retVal, srv) = UA_Server_addVariableNode rc (server s1)
                (UA_NODEID_NUMERIC nsIndex (FreeNodeId s1)) parentNodeId'
                (UA_NODEID_NUMERIC 0 UA_NS0ID_HASPROPERTY) (UA_QUALIFIEDNAME 0 ''EnumValues'')
                (UA_NODEID_NUMERIC 0 UA_NS0ID_PROPERTYTYPE) vAttr
          in if retVal = UA_STATUSCODE_GOOD then Inr (s1\<lparr>server := srv\<rparr>)
             else Inl AssertionFailed)"

text \<open>The loop of \<^verbatim>\<open>addLocalizedText\<close> over \<open>i\<close>, filling \<open>enumStrings\<close>.\<close>
function addLocalizedText_loop ::
  "nat \<Rightarrow> UA_LocalizedText option list \<Rightarrow> fault + UA_LocalizedText option list" where
  "addLocalizedText_loop i enumStrings =
     (if i < ENUMVALUES_LEN
      then
        (case snprintf_d (''EnumString   '' @ [NUL]) 11 (length (''EnumString   '' @ [NUL])) i of
           Inl e \<Rightarrow> Inl e
         | Inr text' \<Rightarrow>
             if i < length enumStrings
             then addLocalizedText_loop (Suc i)
                    (enumStrings[i := Some (UA_LOCALIZEDTEXT_ALLOC '''' (c_string text'))])
             else Inl IndexOutOfBounds)
      else Inr enumStrings)"
  by pat_completeness auto
termination
  by (relation "measure (\<lambda>(i, enumStrings). ENUMVALUES_LEN - i)") auto

declare addLocalizedText_loop.simps [simp del]

text \<open>
  The first part of \<^verbatim>\<open>addLocalizedText\<close>, up to \<^verbatim>\<open>UA_Variant_setArray\<close>: the
  attributes it hands to the server, or the fault of its loop.
\<close>
definition addLocalizedText_attributes :: "ua_library \<Rightarrow> fault + UA_VariableAttributes" where
  "addLocalizedText_attributes L =
     (let vAttr = (UA_VariableAttributes_default L)\<lparr>
            va_userAccessLevel := UA_ACCESSLEVELMASK_READ,
            va_accessLevel := UA_ACCESSLEVELMASK_READ,
            va_valueRank := UA_VALUERANK_ONE_DIMENSION,
            va_arrayDimensionsSize := 1,
            va_arrayDimensions := [0],
            va_displayName := UA_LOCALIZEDTEXT '''' ''EnumStrings'',
            va_dataType := UA_TYPES_typeId UA_TYPES_LOCALIZEDTEXT\<rparr>
      in case addLocalizedText_loop 0 (replicate ENUMVALUES_LEN None) of
           Inl e \<Rightarrow> Inl e
         | Inr enumStrings \<Rightarrow>
             Inr (vAttr\<lparr>va_value :=
                   UA_Variant_setArray (va_value vAttr) (LocalizedTextArray enumStrings) 5 UA_TYPES_LOCALIZEDTEXT\<rparr>))"

definition addLocalizedText ::
  "ua_library \<Rightarrow> program_state \<Rightarrow> UA_UInt16 \<Rightarrow> UA_NodeId \<Rightarrow> UA_StatusCode \<Rightarrow> fault + program_state" where
  "addLocalizedText L s nsIndex parentNodeId' rc =
     (case addLocalizedText_attributes L of
        Inl e \<Rightarrow> Inl e
      | Inr vAttr \<Rightarrow>
          let s1 = s\<lparr>FreeNodeId := FreeNodeId s + 1\<rparr>;
              (retVal, srv) = UA_Server_addVariableNode rc (server s1)
                (UA_NODEID_NUMERIC nsIndex (FreeNodeId s1)) parentNodeId'
                (UA_NODEID_NUMERIC 0 UA_NS0ID_HASPROPERTY) (UA_QUALIFIEDNAME 0 ''EnumStrings'')
                (UA_NODEID_NUMERIC 0 UA_NS0ID_PROPERTYTYPE) vAttr
          in if retVal = UA_STATUSCODE_GOOD then Inr (s1\<lparr>server := srv\<rparr>)
             else Inl AssertionFailed)"

definition addFolderNode ::
  "ua_library \<Rightarrow> program_state \<Rightarrow> UA_UInt16 \<Rightarrow> UA_StatusCode \<Rightarrow> fault + (UA_NodeId \<times> program_state)" where
  "addFolderNode L s nsIndex rc =
     (let s1 = s\<lparr>FreeNodeId := FreeNodeId s + 1\<rparr>;
          folderNodeId = UA_NODEID_NUMERIC nsIndex (FreeNodeId s1);
          oAttr = (UA_ObjectAttributes_default L)\<lparr>oa_displayName := UA_LOCALIZEDTEXT '''' ''MyFolder''\<rparr>;
          (retVal, srv) = UA_Server_addObjectNode rc (server s1) folderNodeId
            (UA_NODEID_NUMERIC 0 UA_NS0ID_OBJECTSFOLDER) (UA_NODEID_NUMERIC 0 UA_NS0ID_ORGANIZES)
            (UA_QUALIFIEDNAME nsIndex ''MyFolderQualifiedName'')
            (UA_NODEID_NUMERIC 0 UA_NS0ID_FOLDERTYPE) oAttr
      in if retVal = UA_STATUSCODE_GOOD then Inr (folderNodeId, s1\<lparr>server := srv\<rparr>)
         else Inl AssertionFailed)"

text \<open>
  \<^verbatim>\<open>addVariableNode\<close>: \<open>rc_copy\<close> is the status of the scalar copy, which the source
  ignores, and \<open>rc\<close> the status of the add service.
\<close>
definition addVariableNode ::
  "ua_library \<Rightarrow> program_state \<Rightarrow> UA_NodeId \<Rightarrow> UA_UInt16 \<Rightarrow> string \<Rightarrow> UA_NodeId \<Rightarrow>
   UA_StatusCode \<Rightarrow> UA_StatusCode \<Rightarrow> fault + program_state" where
  "addVariableNode L s dataTypeNodeId nsIndex name parentNodeId' rc_copy rc =
     (let vAttr = (UA_VariableAttributes_default L)\<lparr>
            va_dataType := dataTypeNodeId,
            va_valueRank := UA_VALUERANK_SCALAR,
            va_displayName := UA_LOCALIZEDTEXT '''' name,
            va_accessLevel := UA_ACCESSLEVELMASK_READ OR UA_ACCESSLEVELMASK_WRITE\<rparr>;
          valueInt = 0;
          (ignored, value') = UA_Variant_setScalarCopy rc_copy UA_Variant_init valueInt UA_TYPES_INT32;
          vAttr = vAttr\<lparr>va_value := value'\<rparr>;
          dataSource = \<lparr>ds_read = Ptr_readValue, ds_write = Ptr_writeValue\<rparr>;
          s1 = s\<lparr>FreeNodeId := FreeNodeId s + 1\<rparr>;
          (retVal, srv) = UA_Server_addDataSourceVariableNode rc (server s1)
            (UA_NODEID_NUMERIC nsIndex (FreeNodeId s1)) parentNodeId'
            (UA_NODEID_NUMERIC 0 UA_NS0ID_ORGANIZES)
            (UA_QUALIFIEDNAME nsIndex ''EnumVariableQualifiedName'')
            (UA_NODEID_NUMERIC 0 UA_NS0ID_BASEDATAVARIABLETYPE) vAttr dataSource
      in if retVal = UA_STATUSCODE_GOOD then Inr (s1\<lparr>server := srv\<rparr>)
         else Inl AssertionFailed)"

text \<open>
  \<^verbatim>\<open>main\<close> up to the point where the server starts to run. \<open>testNs\<close> is the index
  the library gives the namespace, and \<open>rcs k\<close> the status of the \<open>k\<close>-th fallible
  library call, in the order of the calls.
\<close>
definition main :: "ua_library \<Rightarrow> UA_UInt16 \<Rightarrow> (nat \<Rightarrow> UA_StatusCode) \<Rightarrow> fault + program_state" where
  "main L testNs rcs =
     (case addFolderNode L initial_state testNs (rcs 0) of
        Inl e \<Rightarrow> Inl e
      | Inr (parentNodeId', s1) \<Rightarrow>
     (case addEnumerationDataType L s1 testNs ''CustomEnumValueType'' (rcs 1) of
        Inl e \<Rightarrow> Inl e
      | Inr (enumValueType, s2) \<Rightarrow>
     (case addEnumValues L s2 testNs enumValueType (rcs 2) of
        Inl e \<Rightarrow> Inl e
      | Inr s3 \<Rightarrow>
     (case addVariableNode L s3 enumValueType testNs ''EnumValueTypeVariable'' parentNodeId'
             (rcs 3) (rcs 4) of
        Inl e \<Rightarrow> Inl e
      | Inr s4 \<Rightarrow>
     (case addEnumerationDataType L s4 testNs ''CustomLocalizedTextType'' (rcs 5) of
        Inl e \<Rightarrow> Inl e
      | Inr (enumLocalizedText, s5) \<Rightarrow>
     (case addLocalizedText L s5 testNs enumLocalizedText (rcs 6) of
        Inl e \<Rightarrow> Inl e
      | Inr s6 \<Rightarrow>
          addVariableNode L s6 enumLocalizedText testNs ''LocalizedTextVariable'' parentNodeId'
            (rcs 7) (rcs 8)))))))"


section \<open>Sequences of creations\<close>




text \<open>The numeric identifiers of the nodes the server got between two states, in order.\<close>
definition assigned_ids :: "program_state \<Rightarrow> program_state \<Rightarrow> UA_UInt32 list" where
  "assigned_ids s s' =
     map (\<lambda>n. numeric (nodeId n)) (drop (length (nodes (server s))) (nodes (server s')))"

section \<open>Predicates and sample inputs of the statements\<close>

text \<open>The rotating counter is within the enumeration.\<close>
definition counter_in_range :: "program_state \<Rightarrow> bool" where
  "counter_in_range s =
     (0 \<le> sint (readValue_value s) \<and> sint (readValue_value s) < int ENUMVALUES_LEN)"

text \<open>A call of \<^verbatim>\<open>readValue\<close> has produced a scalar Int32 value in its output.\<close>
fun produces_Int32_scalar ::
  "fault + (UA_StatusCode \<times> program_state \<times> UA_DataValue option) \<Rightarrow> bool" where
  "produces_Int32_scalar (Inr (retVal, s', Some dv)) =
     (hasValue dv \<and> UA_Variant_isScalar (dv_value dv) \<and> var_type (dv_value dv) = Some UA_TYPES_INT32)"
| "produces_Int32_scalar (Inr (retVal, s', None)) = False"
| "produces_Int32_scalar (Inl e) = False"

text \<open>
  An instance of what the example takes from the library, to run the model on concrete
  inputs: the built-in Enumeration descriptor and the default attributes.
\<close>
definition sample_library :: ua_library where
  "sample_library = \<lparr>
     UA_TYPES_ENUMERATION = \<lparr>typeName = Some ''Enumeration'', typeId = UA_NODEID_NUMERIC 0 29,
       binaryEncodingId = UA_NODEID_NUMERIC 0 0, memSize = 4, typeKind = 26,
       pointerFree = True, overlayable = True, membersSize = 0\<rparr>,
     UA_VariableAttributes_default = \<lparr>va_displayName = UA_LOCALIZEDTEXT '''' '''',
       va_value = UA_Variant_init, va_dataType = UA_NODEID_NUMERIC 0 24, va_valueRank = - 2,
       va_arrayDimensionsSize = 0, va_arrayDimensions = [], va_accessLevel = 1,
       va_userAccessLevel = 1\<rparr>,
     UA_ObjectAttributes_default = \<lparr>oa_displayName = UA_LOCALIZEDTEXT '''' '''',
       oa_eventNotifier = 0\<rparr>,
     UA_DataTypeAttributes_default = \<lparr>da_displayName = UA_LOCALIZEDTEXT '''' '''',
       da_isAbstract = False\<rparr>\<rparr>"

text \<open>A payload that matches the declared type of the bound node: a scalar Int32.\<close>
definition valid_payload :: UA_DataValue where
  "valid_payload = \<lparr>dv_value = \<lparr>var_type = Some UA_TYPES_INT32, arrayLength = 0,
     var_data = Int32Scalar 3\<rparr>, hasValue = True, sourceTimestamp = 0\<rparr>"

section \<open>The operations of the specification that the sources do not implement\<close>

text \<open>Modelled from the spec: the error kinds of Section 7.\<close>
datatype spec_error =
    NodeNotFound | UnknownType | DuplicateName | InvalidReference | ParentNotFound
  | ShapeMismatch | TypeMismatch | AccessDenied | WriteRejected | SourceUnavailable

text \<open>
  Following the specification's words (Section 4.3): a write through a binding succeeds or
  is refused by the binding's write strategy with \<open>WriteRejected\<close>. The strategy of the
  sources reports through a status code; a good status is success, any other status is
  its refusal.
\<close>
definition binding_write_result :: "UA_StatusCode \<Rightarrow> spec_error + unit" where
  "binding_write_result rc = (if rc = UA_STATUSCODE_GOOD then Inr () else Inl WriteRejected)"

text \<open>
  Modelled from the spec: the value container of Section 3 and the shape check of
  \<open>addVariableNode\<close> of Section 4.2. The check is made inside the library's
  \<^verbatim>\<open>UA_Server_addVariableNode\<close>, whose code is not in the sources. A container is a
  scalar or a sequence; the declared array-dimension descriptor is empty for a scalar and
  holds one length otherwise. A declared length of 0 leaves the length open:
  \<^verbatim>\<open>addLocalizedText\<close> declares \<^verbatim>\<open>{0}\<close>, supplies five entries and asserts that
  the node is created.
\<close>
datatype 'a ValueContainer = ScalarValue 'a | ArrayValue "'a list"

fun shape_matches :: "nat list \<Rightarrow> 'a ValueContainer \<Rightarrow> bool" where
  "shape_matches [] (ScalarValue x) = True"
| "shape_matches [n] (ArrayValue xs) = (n = 0 \<or> length xs = n)"
| "shape_matches dims v = False"

text \<open>
  Modelled from the spec: a variable node is \<open>Stored\<close> with a container or \<open>Bound\<close>
  to a binding; the address space holds the registered types and the nodes.
\<close>
datatype 'a value_mode = Stored "'a ValueContainer" | Bound

record 'a spec_node =
  sn_id :: UA_NodeId
  sn_parent :: UA_NodeId
  sn_referenceKind :: UA_NodeId
  sn_name :: string
  sn_declaredType :: UA_NodeId
  sn_arrayDimensions :: "nat list"
  sn_accessMask :: UA_Byte
  sn_mode :: "'a value_mode"

record 'a AddressSpace =
  as_types :: "UA_NodeId list"
  as_nodes :: "'a spec_node list"
  as_namespace :: UA_UInt16
  as_next :: UA_UInt32

text \<open>
  Modelled from the spec: \<open>addVariableNode\<close> of Section 4.2, for the library's
  \<^verbatim>\<open>UA_Server_addVariableNode\<close>. It fails with \<open>UnknownType\<close> if the declared type
  does not resolve, and with \<open>ShapeMismatch\<close> if an initial static value's shape does not
  match the declared array-dimension constraint; otherwise the node is inserted under a
  fresh identifier.
\<close>
definition spec_addVariableNode ::
  "'a AddressSpace \<Rightarrow> UA_NodeId \<Rightarrow> UA_NodeId \<Rightarrow> string \<Rightarrow> UA_NodeId \<Rightarrow> nat list \<Rightarrow> UA_Byte \<Rightarrow>
   'a value_mode \<Rightarrow> spec_error + (UA_NodeId \<times> 'a AddressSpace)" where
  "spec_addVariableNode sp parent referenceKind name declaredType dims accessMask initial =
     (if declaredType \<notin> set (as_types sp) then Inl UnknownType
      else if (case initial of Stored v \<Rightarrow> \<not> shape_matches dims v | Bound \<Rightarrow> False)
      then Inl ShapeMismatch
      else let new_id = UA_NODEID_NUMERIC (as_namespace sp) (as_next sp + 1)
           in Inr (new_id, sp\<lparr>as_nodes := as_nodes sp @ [\<lparr>sn_id = new_id, sn_parent = parent,
                     sn_referenceKind = referenceKind, sn_name = name,
                     sn_declaredType = declaredType, sn_arrayDimensions = dims,
                     sn_accessMask = accessMask, sn_mode = initial\<rparr>],
                   as_next := as_next sp + 1\<rparr>))"

text \<open>
  The declared dimensions and the initial container of the attributes that the sources
  hand to \<^verbatim>\<open>UA_Server_addVariableNode\<close>.
\<close>
definition declared_dimensions :: "UA_VariableAttributes \<Rightarrow> nat list" where
  "declared_dimensions attr =
     map unat (take (va_arrayDimensionsSize attr) (va_arrayDimensions attr))"

fun initial_container :: "UA_Variant \<Rightarrow> unit ValueContainer option" where
  "initial_container v =
     (case var_data v of
        NoData \<Rightarrow> None
      | Int32Scalar x \<Rightarrow> Some (ScalarValue ())
      | EnumValueArray xs \<Rightarrow> Some (ArrayValue (map (\<lambda>x. ()) (take (arrayLength v) xs)))
      | LocalizedTextArray xs \<Rightarrow> Some (ArrayValue (map (\<lambda>x. ()) (take (arrayLength v) xs))))"

section \<open>Proofs\<close>


subsection \<open>The loops and the attributes they build\<close>

lemma decimal_digit: "n < 10 \<Longrightarrow> decimal n = [''0123456789'' ! n]"
  by (simp add: decimal.simps)

lemma addLocalizedText_loop_result:
  "addLocalizedText_loop 0 (replicate ENUMVALUES_LEN None) =
     Inr (map (\<lambda>i. Some (UA_LOCALIZEDTEXT_ALLOC '''' (''EnumString '' @ decimal i))) [0..<ENUMVALUES_LEN])"
  by (simp add: addLocalizedText_loop.simps ENUMVALUES_LEN_def snprintf_d_def decimal_digit NUL_def
      c_string_def UA_LOCALIZEDTEXT_ALLOC_def Let_def eval_nat_numeral upt_rec)

lemma addEnumValues_loop_result:
  "addEnumValues_loop 0 (replicate ENUMVALUES_LEN None) =
     Inr (map (\<lambda>i. Some \<lparr>ev_value = of_nat i,
                          ev_displayName = UA_LOCALIZEDTEXT_ALLOC '''' (''EnumValue '' @ decimal i),
                          ev_description = UA_LOCALIZEDTEXT_ALLOC '''' (''Description '' @ decimal i)\<rparr>)
            [0..<ENUMVALUES_LEN])"
  by (simp add: addEnumValues_loop.simps ENUMVALUES_LEN_def snprintf_d_def decimal_digit NUL_def
      c_string_def UA_LOCALIZEDTEXT_ALLOC_def Let_def eval_nat_numeral upt_rec)

lemma addLocalizedText_attributes_result:
  "addLocalizedText_attributes L =
     Inr ((UA_VariableAttributes_default L)\<lparr>
            va_userAccessLevel := UA_ACCESSLEVELMASK_READ,
            va_accessLevel := UA_ACCESSLEVELMASK_READ,
            va_valueRank := UA_VALUERANK_ONE_DIMENSION,
            va_arrayDimensionsSize := 1,
            va_arrayDimensions := [0],
            va_displayName := UA_LOCALIZEDTEXT '''' ''EnumStrings'',
            va_dataType := UA_TYPES_typeId UA_TYPES_LOCALIZEDTEXT,
            va_value := \<lparr>var_type = Some UA_TYPES_LOCALIZEDTEXT, arrayLength = 5,
              var_data = LocalizedTextArray
                (map (\<lambda>i. Some (UA_LOCALIZEDTEXT_ALLOC '''' (''EnumString '' @ decimal i)))
                   [0..<ENUMVALUES_LEN])\<rparr>\<rparr>)"
  by (simp add: addLocalizedText_attributes_def addLocalizedText_loop_result UA_Variant_setArray_def)

lemma addEnumValues_attributes_result:
  "addEnumValues_attributes L =
     Inr ((UA_VariableAttributes_default L)\<lparr>
            va_userAccessLevel := UA_ACCESSLEVELMASK_READ,
            va_accessLevel := UA_ACCESSLEVELMASK_READ,
            va_valueRank := UA_VALUERANK_ONE_DIMENSION,
            va_arrayDimensionsSize := 1,
            va_arrayDimensions := [of_nat ENUMVALUES_LEN],
            va_displayName := UA_LOCALIZEDTEXT '''' ''EnumValues'',
            va_dataType := UA_TYPES_typeId UA_TYPES_ENUMVALUETYPE,
            va_value := \<lparr>var_type = Some UA_TYPES_ENUMVALUETYPE, arrayLength = 5,
              var_data = EnumValueArray
                (map (\<lambda>i. Some \<lparr>ev_value = of_nat i,
                          ev_displayName = UA_LOCALIZEDTEXT_ALLOC '''' (''EnumValue '' @ decimal i),
                          ev_description = UA_LOCALIZEDTEXT_ALLOC '''' (''Description '' @ decimal i)\<rparr>)
                   [0..<ENUMVALUES_LEN])\<rparr>\<rparr>)"
  by (simp add: addEnumValues_attributes_def addEnumValues_loop_result UA_Variant_setArray_def)



subsection \<open>What each creating function changes\<close>

text \<open>
  A call that returns has had a good status from the library, has incremented
  \<open>FreeNodeId\<close> once and has given the server one node, whose identifier is the
  incremented counter in the namespace passed. A call that does not return has failed its
  assertion, or, for \<^verbatim>\<open>addEnumerationDataType\<close> only, has found the type table full.
\<close>

lemma addFolderNode_effect:
  assumes "addFolderNode L s ns rc = Inr (i, s')"
  shows "rc = UA_STATUSCODE_GOOD" "i = UA_NODEID_NUMERIC ns (FreeNodeId s + 1)"
    "FreeNodeId s' = FreeNodeId s + 1" "DataTypes s' = DataTypes s"
    "UsedDataTypes s' = UsedDataTypes s" "readValue_value s' = readValue_value s"
    "customDataTypes (server s') = customDataTypes (server s)"
    "\<exists>n. nodes (server s') = nodes (server s) @ [n] \<and> nodeId n = UA_NODEID_NUMERIC ns (FreeNodeId s + 1)"
  using assms
  by (auto simp: addFolderNode_def UA_Server_addObjectNode_def UA_Server_addNode_def Let_def
      split: if_splits)

lemma addFolderNode_fault: "addFolderNode L s ns rc = Inl e \<Longrightarrow> e = AssertionFailed"
  by (auto simp: addFolderNode_def UA_Server_addObjectNode_def UA_Server_addNode_def Let_def
      split: if_splits)


lemma addEnumValues_effect:
  assumes "addEnumValues L s ns p rc = Inr s'"
  shows "rc = UA_STATUSCODE_GOOD"
    "FreeNodeId s' = FreeNodeId s + 1" "DataTypes s' = DataTypes s"
    "UsedDataTypes s' = UsedDataTypes s" "readValue_value s' = readValue_value s"
    "customDataTypes (server s') = customDataTypes (server s)"
    "\<exists>n. nodes (server s') = nodes (server s) @ [n] \<and> nodeId n = UA_NODEID_NUMERIC ns (FreeNodeId s + 1)"
  using assms
  by (auto simp: addEnumValues_def addEnumValues_attributes_result UA_Server_addVariableNode_def
      UA_Server_addNode_def Let_def split: if_splits)

lemma addEnumValues_fault: "addEnumValues L s ns p rc = Inl e \<Longrightarrow> e = AssertionFailed"
  by (auto simp: addEnumValues_def addEnumValues_attributes_result UA_Server_addVariableNode_def
      UA_Server_addNode_def Let_def split: if_splits)

lemma addLocalizedText_effect:
  assumes "addLocalizedText L s ns p rc = Inr s'"
  shows "rc = UA_STATUSCODE_GOOD"
    "FreeNodeId s' = FreeNodeId s + 1" "DataTypes s' = DataTypes s"
    "UsedDataTypes s' = UsedDataTypes s" "readValue_value s' = readValue_value s"
    "customDataTypes (server s') = customDataTypes (server s)"
    "\<exists>n. nodes (server s') = nodes (server s) @ [n] \<and> nodeId n = UA_NODEID_NUMERIC ns (FreeNodeId s + 1)"
  using assms
  by (auto simp: addLocalizedText_def addLocalizedText_attributes_result UA_Server_addVariableNode_def
      UA_Server_addNode_def Let_def split: if_splits)

lemma addLocalizedText_fault: "addLocalizedText L s ns p rc = Inl e \<Longrightarrow> e = AssertionFailed"
  by (auto simp: addLocalizedText_def addLocalizedText_attributes_result UA_Server_addVariableNode_def
      UA_Server_addNode_def Let_def split: if_splits)

lemma addVariableNode_effect:
  assumes "addVariableNode L s dt ns name p rc_copy rc = Inr s'"
  shows "rc = UA_STATUSCODE_GOOD"
    "FreeNodeId s' = FreeNodeId s + 1" "DataTypes s' = DataTypes s"
    "UsedDataTypes s' = UsedDataTypes s" "readValue_value s' = readValue_value s"
    "customDataTypes (server s') = customDataTypes (server s)"
    "\<exists>n. nodes (server s') = nodes (server s) @ [n] \<and> nodeId n = UA_NODEID_NUMERIC ns (FreeNodeId s + 1)"
  using assms
  by (auto simp: addVariableNode_def UA_Server_addDataSourceVariableNode_def UA_Variant_setScalarCopy_def
      UA_Server_addNode_def Let_def split: if_splits)

lemma addVariableNode_fault:
  "addVariableNode L s dt ns name p rc_copy rc = Inl e \<Longrightarrow> e = AssertionFailed"
  by (auto simp: addVariableNode_def UA_Server_addDataSourceVariableNode_def UA_Variant_setScalarCopy_def
      UA_Server_addNode_def Let_def split: if_splits)

lemma addEnumerationDataType_effect:
  assumes "addEnumerationDataType L s ns name rc = Inr (i, s')"
  shows "rc = UA_STATUSCODE_GOOD" "i = UA_NODEID_NUMERIC ns (FreeNodeId s + 1)"
    "FreeNodeId s' = FreeNodeId s + 1"
    "UsedDataTypes s < length (DataTypes s)"
    "DataTypes s' = (DataTypes s)[UsedDataTypes s :=
        (UA_TYPES_ENUMERATION L)\<lparr>typeName := Some name, typeId := i, binaryEncodingId := i\<rparr>]"
    "UsedDataTypes s' = Suc (UsedDataTypes s)" "readValue_value s' = readValue_value s"
    "customDataTypes (server s') =
       (if customDataTypes (server s) = None then Some Addr_DataTypeArray else customDataTypes (server s))"
    "\<exists>n. nodes (server s') = nodes (server s) @ [n] \<and> nodeId n = UA_NODEID_NUMERIC ns (FreeNodeId s + 1)"
  using assms
  by (auto simp: addEnumerationDataType_def UA_Server_addDataTypeNode_def
      UA_Server_addNode_def Let_def split: if_splits)

lemma addEnumerationDataType_fault:
  "addEnumerationDataType L s ns name rc = Inl e \<Longrightarrow>
     e = AssertionFailed \<or> (e = IndexOutOfBounds \<and> length (DataTypes s) \<le> UsedDataTypes s)"
  by (auto simp: addEnumerationDataType_def UA_Server_addDataTypeNode_def
      UA_Server_addNode_def Let_def split: if_splits)


subsection \<open>Identifiers along a sequence of creations\<close>








subsection \<open>The runs of main\<close>

text \<open>
  A run of \<^verbatim>\<open>main\<close> that completes has built the two types and the seven nodes; a
  run that does not complete has failed an assertion.
\<close>

lemma main_Inr:
  assumes "main L testNs rcs = Inr s"
  shows "DataTypes s =
      [(UA_TYPES_ENUMERATION L)\<lparr>typeName := Some ''CustomEnumValueType'',
          typeId := UA_NODEID_NUMERIC testNs 0x80000002,
          binaryEncodingId := UA_NODEID_NUMERIC testNs 0x80000002\<rparr>,
       (UA_TYPES_ENUMERATION L)\<lparr>typeName := Some ''CustomLocalizedTextType'',
          typeId := UA_NODEID_NUMERIC testNs 0x80000005,
          binaryEncodingId := UA_NODEID_NUMERIC testNs 0x80000005\<rparr>]"
    and "UsedDataTypes s = 2" and "FreeNodeId s = 0x80000007"
    and "assigned_ids initial_state s =
      [0x80000001, 0x80000002, 0x80000003, 0x80000004, 0x80000005, 0x80000006, 0x80000007]"
proof -
  from assms obtain p s1 t1 s2 s3 s4 t2 s5 s6 where
    a1: "addFolderNode L initial_state testNs (rcs 0) = Inr (p, s1)" and
    a2: "addEnumerationDataType L s1 testNs ''CustomEnumValueType'' (rcs 1) = Inr (t1, s2)" and
    a3: "addEnumValues L s2 testNs t1 (rcs 2) = Inr s3" and
    a4: "addVariableNode L s3 t1 testNs ''EnumValueTypeVariable'' p (rcs 3) (rcs 4) = Inr s4" and
    a5: "addEnumerationDataType L s4 testNs ''CustomLocalizedTextType'' (rcs 5) = Inr (t2, s5)" and
    a6: "addLocalizedText L s5 testNs t2 (rcs 6) = Inr s6" and
    a7: "addVariableNode L s6 t2 testNs ''LocalizedTextVariable'' p (rcs 7) (rcs 8) = Inr s"
    by (auto simp: main_def split: sum.splits prod.splits)
  note e1 = addFolderNode_effect[OF a1]
  note e2 = addEnumerationDataType_effect[OF a2]
  note e3 = addEnumValues_effect[OF a3]
  note e4 = addVariableNode_effect[OF a4]
  note e5 = addEnumerationDataType_effect[OF a5]
  note e6 = addLocalizedText_effect[OF a6]
  note e7 = addVariableNode_effect[OF a7]
  have f1: "FreeNodeId s1 = 0x80000001" using e1(3) by (simp add: initial_state_def)
  have f2: "FreeNodeId s2 = 0x80000002" using e2(3) f1 by simp
  have f3: "FreeNodeId s3 = 0x80000003" using e3(2) f2 by simp
  have f4: "FreeNodeId s4 = 0x80000004" using e4(2) f3 by simp
  have f5: "FreeNodeId s5 = 0x80000005" using e5(3) f4 by simp
  have f6: "FreeNodeId s6 = 0x80000006" using e6(2) f5 by simp
  show f7: "FreeNodeId s = 0x80000007" using e7(2) f6 by simp
  have u1: "UsedDataTypes s1 = 0" "DataTypes s1 = [zero_DataType, zero_DataType]"
    using e1(4,5) by (simp_all add: initial_state_def)
  have t1: "t1 = UA_NODEID_NUMERIC testNs 0x80000002" using e2(2) f1 by simp
  have u2: "UsedDataTypes s2 = 1"
    "DataTypes s2 = [(UA_TYPES_ENUMERATION L)\<lparr>typeName := Some ''CustomEnumValueType'',
          typeId := t1, binaryEncodingId := t1\<rparr>, zero_DataType]"
    using e2(5,6) u1 by simp_all
  have u4: "UsedDataTypes s4 = 1" "DataTypes s4 = DataTypes s2"
    using e3(3,4) e4(3,4) u2(1) by simp_all
  have t2: "t2 = UA_NODEID_NUMERIC testNs 0x80000005" using e5(2) f4 by simp
  have u5: "UsedDataTypes s5 = 2"
    "DataTypes s5 = [(UA_TYPES_ENUMERATION L)\<lparr>typeName := Some ''CustomEnumValueType'',
          typeId := t1, binaryEncodingId := t1\<rparr>,
        (UA_TYPES_ENUMERATION L)\<lparr>typeName := Some ''CustomLocalizedTextType'',
          typeId := t2, binaryEncodingId := t2\<rparr>]"
    using e5(5,6) u4 u2(2) by simp_all
  show "UsedDataTypes s = 2" using e6(4) e7(4) u5(1) by simp
  show "DataTypes s =
      [(UA_TYPES_ENUMERATION L)\<lparr>typeName := Some ''CustomEnumValueType'',
          typeId := UA_NODEID_NUMERIC testNs 0x80000002,
          binaryEncodingId := UA_NODEID_NUMERIC testNs 0x80000002\<rparr>,
       (UA_TYPES_ENUMERATION L)\<lparr>typeName := Some ''CustomLocalizedTextType'',
          typeId := UA_NODEID_NUMERIC testNs 0x80000005,
          binaryEncodingId := UA_NODEID_NUMERIC testNs 0x80000005\<rparr>]"
    using e6(3) e7(3) u5(2) t1 t2 by simp
  from e1(8) e2(9) e3(7) e4(7) e5(9) e6(7) e7(7) f1 f2 f3 f4 f5 f6
  show "assigned_ids initial_state s =
      [0x80000001, 0x80000002, 0x80000003, 0x80000004, 0x80000005, 0x80000006, 0x80000007]"
    by (auto simp: assigned_ids_def initial_state_def)
qed

lemma main_Inl:
  assumes "main L testNs rcs = Inl e"
  shows "e = AssertionFailed"
proof -
  from assms consider
    (c1) "addFolderNode L initial_state testNs (rcs 0) = Inl e"
  | (c2) p s1 where "addFolderNode L initial_state testNs (rcs 0) = Inr (p, s1)"
      "addEnumerationDataType L s1 testNs ''CustomEnumValueType'' (rcs 1) = Inl e"
  | (c3) t1 s2 where "addEnumValues L s2 testNs t1 (rcs 2) = Inl e"
  | (c4) p t1 s3 where
      "addVariableNode L s3 t1 testNs ''EnumValueTypeVariable'' p (rcs 3) (rcs 4) = Inl e"
  | (c5) p s1 t1 s2 s3 s4 where "addFolderNode L initial_state testNs (rcs 0) = Inr (p, s1)"
      "addEnumerationDataType L s1 testNs ''CustomEnumValueType'' (rcs 1) = Inr (t1, s2)"
      "addEnumValues L s2 testNs t1 (rcs 2) = Inr s3"
      "addVariableNode L s3 t1 testNs ''EnumValueTypeVariable'' p (rcs 3) (rcs 4) = Inr s4"
      "addEnumerationDataType L s4 testNs ''CustomLocalizedTextType'' (rcs 5) = Inl e"
  | (c6) s5 t2 where "addLocalizedText L s5 testNs t2 (rcs 6) = Inl e"
  | (c7) s6 t2 p where
      "addVariableNode L s6 t2 testNs ''LocalizedTextVariable'' p (rcs 7) (rcs 8) = Inl e"
    by (auto simp: main_def split: sum.splits prod.splits)
  then show ?thesis
  proof cases
    case c1
    then show ?thesis by (rule addFolderNode_fault)
  next
    case c2
    note e1 = addFolderNode_effect[OF c2(1)]
    have "UsedDataTypes s1 < length (DataTypes s1)"
      using e1(4,5) by (simp add: initial_state_def)
    with addEnumerationDataType_fault[OF c2(2)] show ?thesis by auto
  next
    case c3
    then show ?thesis by (rule addEnumValues_fault)
  next
    case c4
    then show ?thesis by (rule addVariableNode_fault)
  next
    case c5
    note e1 = addFolderNode_effect[OF c5(1)]
    note e2 = addEnumerationDataType_effect[OF c5(2)]
    note e3 = addEnumValues_effect[OF c5(3)]
    note e4 = addVariableNode_effect[OF c5(4)]
    have "UsedDataTypes s4 = 1" "length (DataTypes s4) = 2"
      using e1(4,5) e2(5,6) e3(3,4) e4(3,4) by (simp_all add: initial_state_def)
    with addEnumerationDataType_fault[OF c5(5)] show ?thesis by auto
  next
    case c6
    then show ?thesis by (rule addLocalizedText_fault)
  next
    case c7
    then show ?thesis by (rule addVariableNode_fault)
  qed
qed

lemma main_good:
  assumes "\<forall>k < 9. rcs k = UA_STATUSCODE_GOOD"
  shows "\<exists>s. main L testNs rcs = Inr s"
proof -
  have g: "rcs 0 = UA_STATUSCODE_GOOD" "rcs (Suc 0) = UA_STATUSCODE_GOOD" "rcs 2 = UA_STATUSCODE_GOOD"
    "rcs 3 = UA_STATUSCODE_GOOD" "rcs 4 = UA_STATUSCODE_GOOD" "rcs 5 = UA_STATUSCODE_GOOD"
    "rcs 6 = UA_STATUSCODE_GOOD" "rcs 7 = UA_STATUSCODE_GOOD" "rcs 8 = UA_STATUSCODE_GOOD"
    using assms by simp_all
  show ?thesis
    by (simp add: main_def g addFolderNode_def addEnumerationDataType_def addEnumValues_def
        addLocalizedText_def addVariableNode_def addEnumValues_attributes_result
        addLocalizedText_attributes_result UA_Server_addObjectNode_def UA_Server_addDataTypeNode_def
        UA_Server_addVariableNode_def UA_Server_addDataSourceVariableNode_def UA_Server_addNode_def
        UA_Variant_setScalarCopy_def initial_state_def Let_def)
qed

subsection \<open>The counter of readValue\<close>

text \<open>
  With the counter between 0 and 4 the increment does not overflow, and the call returns
  with the counter advanced by one or wrapped to 0.
\<close>

lemma sint_succ_in_range:
  fixes v :: "32 word"
  assumes "0 \<le> sint v" "sint v < 5"
  shows "v \<noteq> 0x7FFFFFFF" "sint (v + 1) = sint v + 1"
proof -
  show "v \<noteq> 0x7FFFFFFF" using assms by auto
  show "sint (v + 1) = sint v + 1"
    using assms by (simp add: sint_word_ariths signed_take_bit_int_eq_self)
qed

lemma readValue_non_null:
  assumes "counter_in_range s"
  shows "readValue s sid sctx nid nctx ts rg (Some dv) rc now =
      Inr (rc, s\<lparr>readValue_value := (if 4 \<le> sint (readValue_value s) then 0 else readValue_value s + 1)\<rparr>,
           Some (if rc = UA_STATUSCODE_GOOD
                 then dv\<lparr>dv_value := \<lparr>var_type = Some UA_TYPES_INT32, arrayLength = 0,
                           var_data = Int32Scalar (if 4 \<le> sint (readValue_value s) then 0 else readValue_value s + 1)\<rparr>,
                         hasValue := True, sourceTimestamp := now\<rparr>
                 else dv))"
  using assms sint_succ_in_range[of "readValue_value s"]
  by (auto simp: counter_in_range_def readValue_def ENUMVALUES_LEN_def UA_Variant_setScalarCopy_def Let_def)

lemma next_counter_in_range:
  assumes "counter_in_range s"
  shows "counter_in_range (s\<lparr>readValue_value := (if 4 \<le> sint (readValue_value s) then 0 else readValue_value s + 1)\<rparr>)"
  using assms sint_succ_in_range[of "readValue_value s"]
  by (auto simp: counter_in_range_def ENUMVALUES_LEN_def)

subsection \<open>The rotating read\<close>

lemma replicate_7: "replicate 7 x = [x, x, x, x, x, x, x]"
  by (simp add: eval_nat_numeral)

text \<open>
  Claim C1. Starting with the counter at 0, seven consecutive successful reads of the bound
  node (each with a non-null output and a scalar copy that succeeds) all return a good status,
  yield the values 1, 2, 3, 4, 0, 1, 2 in that order, and leave the counter at 2.
\<close>
theorem readValue_seven_reads:
  assumes "readValue_value s = 0" and "length ins = 7"
  shows "\<exists>outs. read_sequence s ins = Inr (outs, s\<lparr>readValue_value := 2\<rparr>)
           \<and> map fst outs = replicate 7 UA_STATUSCODE_GOOD
           \<and> map (read_result \<circ> snd) outs =
               [Some 1, Some 2, Some 3, Some 4, Some 0, Some 1, Some 2]"
proof -
  from assms(2) obtain a b c d e f g where ins: "ins = [a, b, c, d, e, f, g]"
    by (auto simp: length_Suc_conv eval_nat_numeral)
  show ?thesis using assms(1) unfolding ins
    by (cases a; cases b; cases c; cases d; cases e; cases f; cases g)
       (simp add: readValue_def ENUMVALUES_LEN_def UA_Variant_setScalarCopy_def Let_def
          replicate_7)
qed

theorem readValue_seven_reads_witness:
  "readValue_value initial_state = 0 \<and> length (replicate 7 (UA_DataValue_init, 0 :: UA_DateTime)) = 7
   \<and> (\<exists>outs. read_sequence initial_state (replicate 7 (UA_DataValue_init, 0)) =
                Inr (outs, initial_state\<lparr>readValue_value := 2\<rparr>)
              \<and> map fst outs = replicate 7 UA_STATUSCODE_GOOD
           \<and> map (read_result \<circ> snd) outs =
               [Some 1, Some 2, Some 3, Some 4, Some 0, Some 1, Some 2])"
  using readValue_seven_reads [of initial_state "replicate 7 (UA_DataValue_init, 0)"]
  by (simp add: initial_state_def)

subsection \<open>The rejecting write\<close>

text \<open>
  Claim C2. Whatever the payload and the other arguments, \<^verbatim>\<open>writeValue\<close> fails: it
  returns the bad status \<^verbatim>\<open>UA_STATUSCODE_BADNOTFOUND\<close>, which is the refusal
  \<open>WriteRejected\<close> of the binding. The instance after it is a payload of the declared
  type.
\<close>
theorem writeValue_rejects_every_write:
  "fst (writeValue s sid sctx nid nctx rg payload) = UA_STATUSCODE_BADNOTFOUND
   \<and> UA_StatusCode_isBad (fst (writeValue s sid sctx nid nctx rg payload))
   \<and> binding_write_result (fst (writeValue s sid sctx nid nctx rg payload)) = Inl WriteRejected"
  by (simp add: writeValue_def binding_write_result_def UA_StatusCode_isBad_def
      UA_STATUSCODE_BADNOTFOUND_def UA_STATUSCODE_GOOD_def)

theorem writeValue_rejects_valid_payload:
  "binding_write_result
     (fst (writeValue initial_state None None None None None (Some valid_payload))) = Inl WriteRejected"
  using writeValue_rejects_every_write [of initial_state None None None None None "Some valid_payload"]
  by blast

subsection \<open>What a read changes\<close>

text \<open>
  Claim C4, as amended. A call of \<^verbatim>\<open>readValue\<close> with a non-null output, made with
  the counter in the range from 0 to 4, changes nothing of the program state but the
  counter, leaves the counter in that range, and returns the status of the scalar copy.
  When that status is good the output holds a scalar Int32, the new counter, and the clock
  value; when it is not, the output is returned as it was.
\<close>
theorem readValue_confined_to_counter:
  assumes "counter_in_range s"
  shows "\<exists>v. readValue s sid sctx nid nctx ts rg (Some dv) rc now =
           Inr (rc, s\<lparr>readValue_value := v\<rparr>,
                Some (if rc = UA_STATUSCODE_GOOD
                      then dv\<lparr>dv_value := \<lparr>var_type = Some UA_TYPES_INT32, arrayLength = 0,
                                var_data = Int32Scalar v\<rparr>,
                              hasValue := True, sourceTimestamp := now\<rparr>
                      else dv))
         \<and> counter_in_range (s\<lparr>readValue_value := v\<rparr>)
         \<and> (rc = UA_STATUSCODE_GOOD \<longrightarrow>
              produces_Int32_scalar (readValue s sid sctx nid nctx ts rg (Some dv) rc now))"
proof -
  let ?v = "if 4 \<le> sint (readValue_value s) then 0 else readValue_value s + 1"
  note r = readValue_non_null[OF assms, of sid sctx nid nctx ts rg dv rc now]
  have "rc = UA_STATUSCODE_GOOD \<longrightarrow>
      produces_Int32_scalar (readValue s sid sctx nid nctx ts rg (Some dv) rc now)"
    unfolding r by (simp add: UA_Variant_isScalar_def)
  with r next_counter_in_range[OF assms] show ?thesis by blast
qed

theorem readValue_confined_to_counter_witness:
  "counter_in_range initial_state
   \<and> produces_Int32_scalar
       (readValue initial_state None None None None False None (Some UA_DataValue_init)
          UA_STATUSCODE_GOOD 0)"
proof -
  have h: "counter_in_range initial_state"
    by (simp add: counter_in_range_def initial_state_def ENUMVALUES_LEN_def)
  from readValue_confined_to_counter [OF h, of None None None None False None UA_DataValue_init
      UA_STATUSCODE_GOOD 0]
  show ?thesis using h by blast
qed

text \<open>
  The claim as stated says that every such call produces a scalar Int32. A call whose scalar
  copy fails produces no value.
\<close>
theorem readValue_copy_failure_counterexample:
  "\<not> produces_Int32_scalar
       (readValue initial_state None None None None False None (Some UA_DataValue_init)
          UA_STATUSCODE_BADOUTOFMEMORY 0)"
  by (simp add: readValue_def initial_state_def ENUMVALUES_LEN_def UA_Variant_setScalarCopy_def
      UA_STATUSCODE_BADOUTOFMEMORY_def UA_STATUSCODE_GOOD_def UA_DataValue_init_def Let_def)

text \<open>
  Claim C8. With a null output pointer \<^verbatim>\<open>readValue\<close> returns
  \<^verbatim>\<open>UA_STATUSCODE_BADNOTFOUND\<close> and the program state, the counter included, is the
  state before the call.
\<close>
theorem readValue_null_output:
  "readValue s sid sctx nid nctx ts rg None rc now = Inr (UA_STATUSCODE_BADNOTFOUND, s, None)"
  by (simp add: readValue_def)

text \<open>
  Claim C9. \<^verbatim>\<open>writeValue\<close> returns \<^verbatim>\<open>UA_STATUSCODE_BADNOTFOUND\<close> for every
  combination of its arguments and leaves the program state as it was; two calls on any
  inputs and in any states return the same status.
\<close>
theorem writeValue_constant:
  "writeValue s sid sctx nid nctx rg dv = (UA_STATUSCODE_BADNOTFOUND, s)
   \<and> fst (writeValue s sid sctx nid nctx rg dv) = fst (writeValue s' sid' sctx' nid' nctx' rg' dv')"
  by (simp add: writeValue_def)

subsection \<open>Identifiers\<close>






subsection \<open>The type table\<close>

text \<open>
  Claim C5. When \<^verbatim>\<open>addEnumerationDataType\<close> returns the identifier \<open>id\<close>, the entry
  it stored in \<open>DataTypes\<close>, at the index \<open>UsedDataTypes\<close> had before the call, is
  the built-in Enumeration descriptor with the type name, the type identifier and the binary
  encoding identifier replaced: its name is \<open>name\<close>, its identifier is \<open>id\<close>, its
  kind is the kind of the Enumeration descriptor. The server's configuration points to a
  type array, which is \<open>DataTypeArray\<close> if it pointed to none before.
\<close>
theorem addEnumerationDataType_registers:
  assumes "addEnumerationDataType L s nsIndex name rc = Inr (id', s')"
  shows "UsedDataTypes s < length (DataTypes s')
       \<and> DataTypes s' ! UsedDataTypes s =
           (UA_TYPES_ENUMERATION L)\<lparr>typeName := Some name, typeId := id', binaryEncodingId := id'\<rparr>
       \<and> typeName (DataTypes s' ! UsedDataTypes s) = Some name
       \<and> typeId (DataTypes s' ! UsedDataTypes s) = id'
       \<and> typeKind (DataTypes s' ! UsedDataTypes s) = typeKind (UA_TYPES_ENUMERATION L)
       \<and> UsedDataTypes s' = Suc (UsedDataTypes s)
       \<and> id' = UA_NODEID_NUMERIC nsIndex (FreeNodeId s + 1)
       \<and> customDataTypes (server s') =
           (if customDataTypes (server s) = None then Some Addr_DataTypeArray
            else customDataTypes (server s))"
proof -
  note e = addEnumerationDataType_effect[OF assms]
  have "DataTypes s' ! UsedDataTypes s =
      (UA_TYPES_ENUMERATION L)\<lparr>typeName := Some name, typeId := id', binaryEncodingId := id'\<rparr>"
    using e(4,5) by simp
  moreover have "UsedDataTypes s < length (DataTypes s')" using e(4,5) by simp
  ultimately show ?thesis using e(2,6,8) by simp
qed

theorem addEnumerationDataType_registers_witness:
  "\<exists>s'. addEnumerationDataType sample_library initial_state 1 ''CustomEnumValueType''
           UA_STATUSCODE_GOOD = Inr (UA_NODEID_NUMERIC 1 0x80000001, s')
     \<and> typeName (DataTypes s' ! 0) = Some ''CustomEnumValueType''
     \<and> typeId (DataTypes s' ! 0) = UA_NODEID_NUMERIC 1 0x80000001
     \<and> typeKind (DataTypes s' ! 0) = 26
     \<and> UsedDataTypes s' = 1
     \<and> customDataTypes (server s') = Some Addr_DataTypeArray"
proof -
  obtain s' where run: "addEnumerationDataType sample_library initial_state 1
      ''CustomEnumValueType'' UA_STATUSCODE_GOOD = Inr (UA_NODEID_NUMERIC 1 0x80000001, s')"
    by (simp add: addEnumerationDataType_def UA_Server_addDataTypeNode_def UA_Server_addNode_def
        initial_state_def Let_def)
  from addEnumerationDataType_registers [OF run] run show ?thesis
    by (simp add: initial_state_def sample_library_def)
qed

text \<open>
  Claim C10. In no run of \<^verbatim>\<open>main\<close>, whatever the library returns, does the write to
  \<open>DataTypes\<close> leave the array: no run ends in an index out of bounds. A run that
  completes has called \<^verbatim>\<open>addEnumerationDataType\<close> twice: the table of capacity 2
  holds the first type at index 0 and the second at index 1, and \<open>UsedDataTypes\<close> is 2.
\<close>
theorem main_type_table_in_bounds:
  "main L testNs rcs \<noteq> Inl IndexOutOfBounds
   \<and> (\<forall>s. main L testNs rcs = Inr s \<longrightarrow>
         length (DataTypes s) = 2 \<and> UsedDataTypes s = 2
         \<and> typeName (DataTypes s ! 0) = Some ''CustomEnumValueType''
         \<and> typeName (DataTypes s ! 1) = Some ''CustomLocalizedTextType'')"
proof -
  have "main L testNs rcs \<noteq> Inl IndexOutOfBounds"
    using main_Inl[of L testNs rcs IndexOutOfBounds] by auto
  moreover have "length (DataTypes s) = 2 \<and> UsedDataTypes s = 2
      \<and> typeName (DataTypes s ! 0) = Some ''CustomEnumValueType''
      \<and> typeName (DataTypes s ! 1) = Some ''CustomLocalizedTextType''"
    if "main L testNs rcs = Inr s" for s
    using main_Inr(1,2)[OF that] by simp
  ultimately show ?thesis by blast
qed

theorem main_type_table_in_bounds_witness:
  "\<exists>s. main sample_library 1 (\<lambda>k. UA_STATUSCODE_GOOD) = Inr s
     \<and> length (DataTypes s) = 2 \<and> UsedDataTypes s = 2
     \<and> typeName (DataTypes s ! 0) = Some ''CustomEnumValueType''
     \<and> typeName (DataTypes s ! 1) = Some ''CustomLocalizedTextType''"
proof -
  obtain s where run: "main sample_library 1 (\<lambda>k. UA_STATUSCODE_GOOD) = Inr s"
    using main_good[of "\<lambda>k. UA_STATUSCODE_GOOD" sample_library 1] by auto
  with main_type_table_in_bounds [of sample_library 1 "\<lambda>k. UA_STATUSCODE_GOOD"]
  show ?thesis by blast
qed

subsection \<open>The enumeration strings\<close>

text \<open>
  Claim C7. The value of the EnumStrings property that \<^verbatim>\<open>addLocalizedText\<close> builds
  is an array of exactly 5 LocalizedText entries, all of them assigned, and the entry at
  position \<open>i\<close>, for \<open>i\<close> from 0 to 4, carries the text \<open>EnumString i\<close>: the
  members sit at the contiguous positions 0 to 4 and the key of a member is its position.
\<close>
theorem addLocalizedText_positions:
  assumes "addLocalizedText L s nsIndex parent rc = Inr s'"
  shows "\<exists>vAttr xs.
           body (last (nodes (server s'))) =
             VariableNode (UA_NODEID_NUMERIC 0 UA_NS0ID_PROPERTYTYPE) vAttr
         \<and> va_displayName vAttr = UA_LOCALIZEDTEXT '''' ''EnumStrings''
         \<and> var_type (va_value vAttr) = Some UA_TYPES_LOCALIZEDTEXT
         \<and> arrayLength (va_value vAttr) = 5
         \<and> var_data (va_value vAttr) = LocalizedTextArray xs
         \<and> length xs = 5
         \<and> (\<forall>i < 5. xs ! i = Some (UA_LOCALIZEDTEXT_ALLOC '''' (''EnumString '' @ decimal i)))
         \<and> xs = [Some (UA_LOCALIZEDTEXT_ALLOC '''' ''EnumString 0''),
                 Some (UA_LOCALIZEDTEXT_ALLOC '''' ''EnumString 1''),
                 Some (UA_LOCALIZEDTEXT_ALLOC '''' ''EnumString 2''),
                 Some (UA_LOCALIZEDTEXT_ALLOC '''' ''EnumString 3''),
                 Some (UA_LOCALIZEDTEXT_ALLOC '''' ''EnumString 4'')]"
proof -
  let ?xs = "map (\<lambda>i. Some (UA_LOCALIZEDTEXT_ALLOC '''' (''EnumString '' @ decimal i)))
      [0..<ENUMVALUES_LEN]"
  obtain vAttr where v: "addLocalizedText_attributes L = Inr vAttr"
    "va_displayName vAttr = UA_LOCALIZEDTEXT '''' ''EnumStrings''"
    "var_type (va_value vAttr) = Some UA_TYPES_LOCALIZEDTEXT"
    "arrayLength (va_value vAttr) = 5"
    "var_data (va_value vAttr) = LocalizedTextArray ?xs"
    by (simp add: addLocalizedText_attributes_result)
  have b: "body (last (nodes (server s'))) =
      VariableNode (UA_NODEID_NUMERIC 0 UA_NS0ID_PROPERTYTYPE) vAttr"
    using assms v(1)
    by (auto simp: addLocalizedText_def UA_Server_addVariableNode_def UA_Server_addNode_def
        Let_def split: if_splits)
  have l: "length ?xs = 5" by (simp add: ENUMVALUES_LEN_def)
  have n: "\<forall>i < 5. ?xs ! i = Some (UA_LOCALIZEDTEXT_ALLOC '''' (''EnumString '' @ decimal i))"
    by (simp add: ENUMVALUES_LEN_def del: upt_Suc)
  have e: "?xs = [Some (UA_LOCALIZEDTEXT_ALLOC '''' ''EnumString 0''),
                 Some (UA_LOCALIZEDTEXT_ALLOC '''' ''EnumString 1''),
                 Some (UA_LOCALIZEDTEXT_ALLOC '''' ''EnumString 2''),
                 Some (UA_LOCALIZEDTEXT_ALLOC '''' ''EnumString 3''),
                 Some (UA_LOCALIZEDTEXT_ALLOC '''' ''EnumString 4'')]"
    by (simp add: ENUMVALUES_LEN_def decimal_digit eval_nat_numeral upt_rec)
  show ?thesis
  proof (rule exI[of _ vAttr], rule exI[of _ ?xs], intro conjI)
    show "body (last (nodes (server s'))) =
        VariableNode (UA_NODEID_NUMERIC 0 UA_NS0ID_PROPERTYTYPE) vAttr" by (rule b)
    show "va_displayName vAttr = UA_LOCALIZEDTEXT '''' ''EnumStrings''" by (rule v(2))
    show "var_type (va_value vAttr) = Some UA_TYPES_LOCALIZEDTEXT" by (rule v(3))
    show "arrayLength (va_value vAttr) = 5" by (rule v(4))
    show "var_data (va_value vAttr) = LocalizedTextArray ?xs" by (rule v(5))
    show "length ?xs = 5" by (rule l)
    show "\<forall>i < 5. ?xs ! i = Some (UA_LOCALIZEDTEXT_ALLOC '''' (''EnumString '' @ decimal i))"
      by (rule n)
    show "?xs = [Some (UA_LOCALIZEDTEXT_ALLOC '''' ''EnumString 0''),
                 Some (UA_LOCALIZEDTEXT_ALLOC '''' ''EnumString 1''),
                 Some (UA_LOCALIZEDTEXT_ALLOC '''' ''EnumString 2''),
                 Some (UA_LOCALIZEDTEXT_ALLOC '''' ''EnumString 3''),
                 Some (UA_LOCALIZEDTEXT_ALLOC '''' ''EnumString 4'')]" by (rule e)
  qed
qed

theorem addLocalizedText_positions_witness:
  "\<exists>s' vAttr.
       addLocalizedText sample_library initial_state 1 (UA_NODEID_NUMERIC 1 0x80000005)
         UA_STATUSCODE_GOOD = Inr s'
     \<and> body (last (nodes (server s'))) =
         VariableNode (UA_NODEID_NUMERIC 0 UA_NS0ID_PROPERTYTYPE) vAttr
     \<and> arrayLength (va_value vAttr) = 5
     \<and> var_data (va_value vAttr) =
         LocalizedTextArray [Some (UA_LOCALIZEDTEXT_ALLOC '''' ''EnumString 0''),
                 Some (UA_LOCALIZEDTEXT_ALLOC '''' ''EnumString 1''),
                 Some (UA_LOCALIZEDTEXT_ALLOC '''' ''EnumString 2''),
                 Some (UA_LOCALIZEDTEXT_ALLOC '''' ''EnumString 3''),
                 Some (UA_LOCALIZEDTEXT_ALLOC '''' ''EnumString 4'')]"
proof -
  obtain s' where run: "addLocalizedText sample_library initial_state 1
      (UA_NODEID_NUMERIC 1 0x80000005) UA_STATUSCODE_GOOD = Inr s'"
    by (simp add: addLocalizedText_def addLocalizedText_attributes_result
        UA_Server_addVariableNode_def UA_Server_addNode_def Let_def)
  from addLocalizedText_positions [OF run] run show ?thesis by blast
qed

subsection \<open>Shape enforcement\<close>

text \<open>
  The attributes that the two property functions of the sources hand to the library pass
  the shape check: five entries against the declared length 5, and five entries against
  the declared length 0.
\<close>
lemma addEnumValues_shape_matches:
  "addEnumValues_attributes L = Inr vAttr \<Longrightarrow>
     declared_dimensions vAttr = [5]
     \<and> (\<exists>c. initial_container (va_value vAttr) = Some c \<and> shape_matches (declared_dimensions vAttr) c)"
  by (auto simp: addEnumValues_attributes_result declared_dimensions_def ENUMVALUES_LEN_def)

lemma addLocalizedText_shape_matches:
  "addLocalizedText_attributes L = Inr vAttr \<Longrightarrow>
     declared_dimensions vAttr = [0]
     \<and> (\<exists>c. initial_container (va_value vAttr) = Some c \<and> shape_matches (declared_dimensions vAttr) c)"
  by (auto simp: addLocalizedText_attributes_result declared_dimensions_def ENUMVALUES_LEN_def)

text \<open>
  Claim C6. Creating a stored array-typed variable node with the declared one-dimensional
  length 5 and an initial value of length 3 fails with \<open>ShapeMismatch\<close> (the declared
  type being known); and a stored array node with a declared length \<open>n\<close> is created
  only if \<open>n\<close> leaves the length open or the initial value has length \<open>n\<close>.
\<close>
theorem stored_array_shape_enforced:
  "(declaredType \<in> set (as_types sp) \<and> length xs = 3 \<longrightarrow>
      spec_addVariableNode sp parent referenceKind name declaredType [5] accessMask (Stored (ArrayValue xs)) = Inl ShapeMismatch)
   \<and> (spec_addVariableNode sp parent referenceKind name declaredType [n] accessMask (Stored (ArrayValue ys)) = Inr r \<longrightarrow>
        n = 0 \<or> length ys = n)"
  by (auto simp: spec_addVariableNode_def Let_def split: if_splits)

theorem stored_array_shape_enforced_witness:
  "spec_addVariableNode \<lparr>as_types = [UA_NODEID_NUMERIC 0 21], as_nodes = [], as_namespace = 1, as_next = 0\<rparr>
       (UA_NODEID_NUMERIC 1 5) (UA_NODEID_NUMERIC 0 46) ''EnumStrings'' (UA_NODEID_NUMERIC 0 21) [5] 1
       (Stored (ArrayValue [''a'', ''b'', ''c''])) = Inl ShapeMismatch
   \<and> (\<exists>r. spec_addVariableNode \<lparr>as_types = [UA_NODEID_NUMERIC 0 21], as_nodes = [], as_namespace = 1, as_next = 0\<rparr>
       (UA_NODEID_NUMERIC 1 5) (UA_NODEID_NUMERIC 0 46) ''EnumStrings'' (UA_NODEID_NUMERIC 0 21) [5] 1
       (Stored (ArrayValue [''a'', ''b'', ''c'', ''d'', ''e''])) = Inr r)
   \<and> length [''a'', ''b'', ''c'', ''d'', ''e''] = 5"
proof -
  let ?sp = "\<lparr>as_types = [UA_NODEID_NUMERIC 0 21], as_nodes = [], as_namespace = 1, as_next = 0\<rparr> :: string AddressSpace"
  obtain r where ok: "spec_addVariableNode ?sp (UA_NODEID_NUMERIC 1 5) (UA_NODEID_NUMERIC 0 46) ''EnumStrings''
      (UA_NODEID_NUMERIC 0 21) [5] 1 (Stored (ArrayValue [''a'', ''b'', ''c'', ''d'', ''e''])) = Inr r"
    by (simp add: spec_addVariableNode_def Let_def)
  from stored_array_shape_enforced [of "UA_NODEID_NUMERIC 0 21" ?sp "[''a'', ''b'', ''c'']"
       "UA_NODEID_NUMERIC 1 5" "UA_NODEID_NUMERIC 0 46" "''EnumStrings''" 1 5 "[''a'', ''b'', ''c'', ''d'', ''e'']" r] ok
  show ?thesis by simp
qed

end
